theory Spec2Isabelle
  imports Main "HOL-Library.Sublist" "HOL-Library.Char_ord" "HOL-Library.List_Lexorder"
    "HOL-Library.Product_Lexorder" "HOL-Library.Word"
begin

section \<open>Data model\<close>

text \<open>
  The script \<^verbatim>\<open>list_3mf_files.py\<close> is a set of I/O recipes over three collaborators:
  an FTPS connection to the printer, the ZIP reader and the local filesystem. The
  embedding makes each of them explicit.

  \<^item> Python strings (paths, entry names) are \<^typ>\<open>string\<close>; \<^verbatim>\<open>str.lower()\<close> is modelled
    on the ASCII letters.
  \<^item> An exception is a value \<open>Exn msg\<close>; a routine that may raise returns
    \<open>exn + 'a\<close> together with the state it leaves behind.
  \<^item> The local filesystem is a set of directories and a map from file paths to bytes;
    local filesystem calls (\<^verbatim>\<open>os.makedirs\<close>, \<^verbatim>\<open>open(..., 'wb')\<close>, the deletion of the
    temporary file) are taken to succeed.
  \<^item> Log records and printed lines are events appended to the state's output; wall-clock
    timings, which the source interpolates into some messages, are left out of the events.
  \<^item> Closing the connection and closing an archive are taken to succeed.
\<close>

datatype exn = Exn string

type_synonym bytes = "8 word list"

text \<open>What reading one archive member gives: \<^verbatim>\<open>zip_file.open(name)\<close> may raise, the
  following \<^verbatim>\<open>.read()\<close> may raise, or the bytes are returned.\<close>

datatype zdata = OpenFails exn | ReadFails exn | Data bytes

record zentry =
  filename :: string
  file_size :: nat
  zdata :: zdata

text \<open>Prefix glyphs of the tree printer: the code points of the literals
  \<^verbatim>\<open>"  |   "\<close>, \<^verbatim>\<open>"  |-- "\<close> and \<^verbatim>\<open>"  `-- "\<close> (drawn with U+2502, U+251C, U+2500, U+2514).\<close>

datatype glyph = Sp | Vert | Tee | Horiz | Corner

datatype level = INFO | ERROR

text \<open>One constructor per message of the source; the arguments are the interpolated
  values (timings excepted).\<close>

datatype event =
    Log_found level nat                     \<comment> \<open>Found {len(files)} 3MF files in ...\<close>
  | Log_processing level string             \<comment> \<open>Processing: {file.file_name}\<close>
  | Log_failed level string exn             \<comment> \<open>Failed to process {file.file_name}: {str(e)}\<close>
  | Log_connection_error level exn          \<comment> \<open>Connection error: {str(e)}\<close>
  | Log_total_completed level               \<comment> \<open>Total operation completed in ...\<close>
  | Log_downloaded level string nat         \<comment> \<open>Downloaded {remote_path} ({file_size...} MB) in ...\<close>
  | Log_extracting level nat nat            \<comment> \<open>Extracting {len(required_files)} files ({total_size...} KB)\<close>
  | Log_extraction_completed level          \<comment> \<open>Extraction completed in ...\<close>
  | Log_total_processing level              \<comment> \<open>Total processing time: ...\<close>
  | Log_configure level                     \<comment> \<open>Please configure proper printer IP and access code!\<close>
  | Log_connecting level string             \<comment> \<open>Connecting to printer at {PRINTER_IP}\<close>
  | Print_zip_error exn                     \<comment> \<open>  `-- Error processing ZIP: {str(e)}\<close>
  | Print_downloading string string         \<comment> \<open>Downloading {remote_path} to {temp_file.name}...\<close>
  | Print_examining                         \<comment> \<open>Examining 3MF structure and extracting thumbnails:\<close>
  | Print_rule                              \<comment> \<open>"-" * 60\<close>
  | Print_file string                       \<comment> \<open>File: {info.filename}\<close>
  | Print_size nat                          \<comment> \<open>  Size: {info.file_size:,} bytes\<close>
  | Print_extracted string                  \<comment> \<open>  `-- Extracted to: {save_path}\<close>
  | Print_blank                             \<comment> \<open>print()\<close>
  | Print_examine_error exn                 \<comment> \<open>Error examining ZIP: {str(e)}\<close>
  | Tree_dir "glyph list" string            \<comment> \<open>{dir_indent}{dir_path.name}/\<close>
  | Tree_file "glyph list" string int string \<comment> \<open>{file_indent}{file_path.name} ({size:,} bytes, {date})\<close>
  | Tree_error "glyph list" string exn      \<comment> \<open>{indent}Error reading {path}: {str(e)}\<close>

record state =
  dirs :: "string set"
  files :: "string \<rightharpoonup> bytes"
  out :: "event list"

text \<open>Modelled from the spec: the FTPS connection, class \<^verbatim>\<open>IoTFTPSConnection\<close> of
  \<^verbatim>\<open>ftps_client.py\<close>, which this file imports and does not define. The spec gives it
  \<^verbatim>\<open>download_file(remote, local)\<close>, \<^verbatim>\<open>list_files(path, filter)\<close>, \<^verbatim>\<open>get_file_size(path)\<close>
  (integer or failure) and \<^verbatim>\<open>get_file_date(path)\<close> (timestamp or failure); each call either
  raises or returns. A download returns the bytes it writes to the local path. The items
  of a listing are of a type declared there too: the script reads their \<^verbatim>\<open>name\<close> and sorts
  them, so an item is taken to be its name, ordered as a string (the spec: alphabetically
  sorted). A date is the text \<^verbatim>\<open>str\<close> gives for it.\<close>

record ftp =
  download_file :: "string \<Rightarrow> exn + bytes"
  list_files :: "string \<Rightarrow> exn + string list"
  get_file_size :: "string \<Rightarrow> exn + int"
  get_file_date :: "string \<Rightarrow> exn + string"

text \<open>Modelled from the spec: the remote file descriptor that
  \<^verbatim>\<open>RemoteSDCardFileList.list_files\<close> returns (\<^verbatim>\<open>remote_sd_card_file_list.py\<close>, not part of this
  file), with the two fields the script reads.\<close>

record file_info =
  file_name :: string
  path :: string

text \<open>The libraries and the operating system: \<^verbatim>\<open>ZipFile(path)\<close> on the bytes of the file,
  \<^verbatim>\<open>Image.open\<close> on the bytes of a member, and the name \<^verbatim>\<open>NamedTemporaryFile\<close> picks
  given the files that exist.\<close>

record 'img sys =
  ZipFile :: "bytes \<Rightarrow> exn + zentry list"
  Image_open :: "bytes \<Rightarrow> exn + 'img"
  tempname :: "(string \<rightharpoonup> bytes) \<Rightarrow> string"

text \<open>Modelled from the spec: \<^verbatim>\<open>RemoteSDCardFileList\<close>, built from the settings that
  \<^verbatim>\<open>create_settings(host, access_code)\<close> makes: \<^verbatim>\<open>file_list.get_ftps_client()\<close>, which opens
  the connection or raises, and \<^verbatim>\<open>file_list.list_files(folder, extensions, ftp)\<close>, which
  returns the descriptors or raises.\<close>

record printer =
  get_ftps_client :: "string \<Rightarrow> string \<Rightarrow> exn + ftp"
  sd_list_files :: "ftp \<Rightarrow> string \<Rightarrow> string \<Rightarrow> exn + file_info list"

section \<open>Library functions the script calls\<close>

definition emit :: "event \<Rightarrow> state \<Rightarrow> state" where
  "emit e st = st\<lparr>out := out st @ [e]\<rparr>"

definition makedirs :: "string \<Rightarrow> state \<Rightarrow> state" where
  \<comment> \<open>\<^verbatim>\<open>os.makedirs(p, exist_ok=True)\<close>\<close>
  "makedirs p st = st\<lparr>dirs := insert p (dirs st)\<rparr>"

definition write_file :: "string \<Rightarrow> bytes \<Rightarrow> state \<Rightarrow> state" where
  "write_file p b st = st\<lparr>files := (files st)(p \<mapsto> b)\<rparr>"

definition unlink :: "string \<Rightarrow> state \<Rightarrow> state" where
  "unlink p st = st\<lparr>files := (files st)(p := None)\<rparr>"

definition basename :: "string \<Rightarrow> string" where
  \<comment> \<open>\<^verbatim>\<open>os.path.basename\<close>: what follows the last slash\<close>
  "basename p = rev (takeWhile (\<lambda>c. c \<noteq> CHR ''/'') (rev p))"

definition rfind :: "char \<Rightarrow> string \<Rightarrow> int" where
  "rfind c p = (if c \<in> set p
     then int (length p) - 1 - int (length (takeWhile (\<lambda>x. x \<noteq> c) (rev p)))
     else - 1)"

definition splitext_root :: "string \<Rightarrow> string" where
  \<comment> \<open>\<^verbatim>\<open>os.path.splitext(p)[0]\<close>: cut at the last dot of the last component, unless
     only dots precede it there\<close>
  "splitext_root p =
     (let sepIndex = rfind (CHR ''/'') p; dotIndex = rfind (CHR ''.'') p
      in if dotIndex > sepIndex \<and>
            list_ex (\<lambda>c. c \<noteq> CHR ''.'')
              (take (nat (dotIndex - (sepIndex + 1))) (drop (nat (sepIndex + 1)) p))
         then take (nat dotIndex) p else p)"

definition join :: "string \<Rightarrow> string \<Rightarrow> string" where
  \<comment> \<open>\<^verbatim>\<open>os.path.join(a, b)\<close>\<close>
  "join a b =
     (if prefix ''/'' b then b
      else if a = [] \<or> suffix ''/'' a then a @ b
      else a @ ''/'' @ b)"

definition lower_char :: "char \<Rightarrow> char" where
  "lower_char c =
     (case map_of (zip ''ABCDEFGHIJKLMNOPQRSTUVWXYZ'' ''abcdefghijklmnopqrstuvwxyz'') c of
        Some l \<Rightarrow> l | None \<Rightarrow> c)"

definition lower :: "string \<Rightarrow> string" where
  "lower s = map lower_char s"

text \<open>\<^verbatim>\<open>zip_file.open(name)\<close> and \<^verbatim>\<open>file_info[name]\<close> look a member up by name; of several
  members of one name the last one listed is found.\<close>

definition getinfo :: "zentry list \<Rightarrow> string \<Rightarrow> zentry option" where
  "getinfo es name = find (\<lambda>e. filename e = name) (rev es)"

definition namelist :: "zentry list \<Rightarrow> string list" where
  "namelist es = map filename es"

section \<open>extract\_required\_files\<close>


text \<open>The body of \<^verbatim>\<open>with zip_file.open(filename) as src, open(save_path, 'wb') as dest:
  dest.write(src.read())\<close>: the member is opened first, then the destination is created
  empty, then the member is read and written.\<close>

definition copy_member :: "zentry list \<Rightarrow> string \<Rightarrow> string \<Rightarrow> state \<Rightarrow> (exn + unit) \<times> state" where
  "copy_member es name save_path st =
     (case getinfo es name of
        None \<Rightarrow> (Inl (Exn ''KeyError''), st)
      | Some e \<Rightarrow>
          (case zdata e of
             OpenFails x \<Rightarrow> (Inl x, st)
           | ReadFails x \<Rightarrow> (Inl x, write_file save_path [] st)
           | Data b \<Rightarrow> (Inr (), write_file save_path b st)))"

text \<open>The loop \<^verbatim>\<open>for filename in required_files\<close>; a Python set is iterated in an order
  the language does not fix, so the order is an argument.\<close>

fun extract_loop :: "zentry list \<Rightarrow> string \<Rightarrow> string list \<Rightarrow> state \<Rightarrow> (exn + unit) \<times> state" where
  "extract_loop es output_dir [] st = (Inr (), st)"
| "extract_loop es output_dir (f # fs) st =
     (if f \<in> set (namelist es)
      then (case copy_member es f (join output_dir (basename f)) st of
              (Inl x, st') \<Rightarrow> (Inl x, st')
            | (Inr u, st') \<Rightarrow> extract_loop es output_dir fs st')
      else extract_loop es output_dir fs st)"

definition total_size :: "zentry list \<Rightarrow> string list \<Rightarrow> nat" where
  "total_size es order =
     sum_list (map (\<lambda>f. case getinfo es f of Some e \<Rightarrow> file_size e | None \<Rightarrow> 0)
       (filter (\<lambda>f. f \<in> set (namelist es)) order))"

text \<open>\<^verbatim>\<open>ZipFile(temp_file.name)\<close> reads the file the download wrote.\<close>

definition open_zip :: "'img sys \<Rightarrow> string \<Rightarrow> state \<Rightarrow> exn + zentry list" where
  "open_zip sys p st =
     (case files st p of
        None \<Rightarrow> Inl (Exn ''FileNotFoundError'')
      | Some b \<Rightarrow> ZipFile sys b)"

definition download :: "ftp \<Rightarrow> string \<Rightarrow> string \<Rightarrow> state \<Rightarrow> (exn + unit) \<times> state" where
  \<comment> \<open>\<^verbatim>\<open>ftp.download_file(remote_path, local_path)\<close>\<close>
  "download c remote_path local_path st =
     (case download_file c remote_path of
        Inl x \<Rightarrow> (Inl x, st)
      | Inr b \<Rightarrow> (Inr (), write_file local_path b st))"

text \<open>\<^verbatim>\<open>with tempfile.NamedTemporaryFile(suffix='.3mf', delete=True) as temp_file\<close>: the
  file is created empty under the name the system picks, the body runs, and the file is
  deleted when the block is left, by return or by exception.\<close>

definition with_tempfile ::
  "'img sys \<Rightarrow> (string \<Rightarrow> state \<Rightarrow> (exn + 'a) \<times> state) \<Rightarrow> state \<Rightarrow> (exn + 'a) \<times> state" where
  "with_tempfile sys body st =
     (let tmp = tempname sys (files st);
          (r, st') = body tmp (write_file tmp [] st)
      in (r, unlink tmp st'))"

definition getsize :: "string \<Rightarrow> state \<Rightarrow> nat" where
  "getsize p st = (case files st p of Some b \<Rightarrow> length b | None \<Rightarrow> 0)"

definition extract_required_body ::
  "'img sys \<Rightarrow> string list \<Rightarrow> ftp \<Rightarrow> string \<Rightarrow> string \<Rightarrow> string \<Rightarrow> state \<Rightarrow> (exn + unit) \<times> state" where
  "extract_required_body sys order c remote_path output_dir tmp st =
     (case download c remote_path tmp st of
        (Inl x, st1) \<Rightarrow> (Inl x, st1)
      | (Inr u, st1) \<Rightarrow>
          (let st2 = emit (Log_downloaded INFO remote_path (getsize tmp st1)) st1
           in case open_zip sys tmp st2 of
                Inl x \<Rightarrow> (Inl x, st2)
              | Inr es \<Rightarrow>
                  (let st3 = emit (Log_extracting INFO (length order) (total_size es order)) st2
                   in case extract_loop es output_dir order st3 of
                        (Inl x, st4) \<Rightarrow> (Inl x, st4)
                      | (Inr u, st4) \<Rightarrow>
                          (Inr (), emit (Log_total_processing INFO)
                                     (emit (Log_extraction_completed INFO) st4)))))"

definition output_dir_of :: "string \<Rightarrow> string \<Rightarrow> string" where
  \<comment> \<open>\<^verbatim>\<open>os.path.join(os.path.dirname(__file__), base_name)\<close>\<close>
  "output_dir_of script_dir remote_path = join script_dir (splitext_root (basename remote_path))"

definition extract_required_files ::
  "'img sys \<Rightarrow> string list \<Rightarrow> string \<Rightarrow> ftp \<Rightarrow> string \<Rightarrow> state \<Rightarrow> (exn + unit) \<times> state" where
  "extract_required_files sys order script_dir c remote_path st =
     (let output_dir = output_dir_of script_dir remote_path;
          st1 = makedirs output_dir st
      in with_tempfile sys (extract_required_body sys order c remote_path output_dir) st1)"

section \<open>list\_3mf\_files and main\<close>

text \<open>The loop \<^verbatim>\<open>for file in files\<close> with its \<^verbatim>\<open>try/except Exception\<close> around each call.\<close>

fun process_files ::
  "'img sys \<Rightarrow> string list \<Rightarrow> string \<Rightarrow> ftp \<Rightarrow> file_info list \<Rightarrow> state \<Rightarrow> state" where
  "process_files sys order script_dir c [] st = st"
| "process_files sys order script_dir c (file # rest) st =
     (let st1 = emit (Log_processing INFO (file_name file)) st
      in case extract_required_files sys order script_dir c (path file) st1 of
           (Inl x, st2) \<Rightarrow>
             process_files sys order script_dir c rest (emit (Log_failed ERROR (file_name file) x) st2)
         | (Inr u, st2) \<Rightarrow> process_files sys order script_dir c rest st2)"

definition list_3mf_files ::
  "'img sys \<Rightarrow> string list \<Rightarrow> string \<Rightarrow> printer \<Rightarrow> string \<Rightarrow> string \<Rightarrow> state \<Rightarrow> state" where
  "list_3mf_files sys order script_dir pr host access_code st =
     (let st1 =
        (case get_ftps_client pr host access_code of
           Inl x \<Rightarrow> emit (Log_connection_error ERROR x) st
         | Inr c \<Rightarrow>
             (case sd_list_files pr c ''/'' ''.3mf'' of
                Inl x \<Rightarrow> emit (Log_connection_error ERROR x) st
              | Inr fls \<Rightarrow>
                  process_files sys order script_dir c fls (emit (Log_found INFO (length fls)) st)))
      in emit (Log_total_completed INFO) st1)"

text \<open>\<^verbatim>\<open>main\<close> with its two local constants as arguments, and \<^verbatim>\<open>main\<close> itself.\<close>

definition main_with ::
  "string \<Rightarrow> string \<Rightarrow> 'img sys \<Rightarrow> string list \<Rightarrow> string \<Rightarrow> printer \<Rightarrow> state \<Rightarrow> state" where
  "main_with PRINTER_IP ACCESS_CODE sys order script_dir pr st =
     (if PRINTER_IP = ''192.168.1.100'' \<or> ACCESS_CODE = ''12345678''
      then emit (Log_configure ERROR) st
      else list_3mf_files sys order script_dir pr PRINTER_IP ACCESS_CODE
             (emit (Log_connecting INFO PRINTER_IP) st))"

definition main :: "'img sys \<Rightarrow> string list \<Rightarrow> string \<Rightarrow> printer \<Rightarrow> state \<Rightarrow> state" where
  "main = main_with ''192.168.178.70'' ''33055062''"

section \<open>extract\_thumbnails\<close>

definition is_thumbnail :: "string \<Rightarrow> bool" where
  \<comment> \<open>\<^verbatim>\<open>'thumbnail' in filename.lower() and filename.lower().endswith(('.png', '.jpg', '.jpeg'))\<close>\<close>
  "is_thumbnail name =
     (sublist ''thumbnail'' (lower name) \<and>
      (suffix ''.png'' (lower name) \<or> suffix ''.jpg'' (lower name) \<or> suffix ''.jpeg'' (lower name)))"

definition read_member :: "zentry list \<Rightarrow> string \<Rightarrow> exn + bytes" where
  \<comment> \<open>\<^verbatim>\<open>zip_file.open(name)\<close> followed by \<^verbatim>\<open>.read()\<close>\<close>
  "read_member es name =
     (case getinfo es name of
        None \<Rightarrow> Inl (Exn ''KeyError'')
      | Some e \<Rightarrow> (case zdata e of OpenFails x \<Rightarrow> Inl x | ReadFails x \<Rightarrow> Inl x | Data b \<Rightarrow> Inr b))"

definition decode_member :: "'img sys \<Rightarrow> zentry list \<Rightarrow> string \<Rightarrow> exn + 'img" where
  \<comment> \<open>\<^verbatim>\<open>with zip_file.open(filename) as image_file: Image.open(io.BytesIO(image_file.read()))\<close>\<close>
  "decode_member sys es name =
     (case read_member es name of Inl x \<Rightarrow> Inl x | Inr b \<Rightarrow> Image_open sys b)"

text \<open>The loop over \<^verbatim>\<open>zip_file.namelist()\<close>; \<^verbatim>\<open>thumbnails\<close> is the list built so far, which
  survives an exception because it is bound outside the \<^verbatim>\<open>try\<close>.\<close>

fun thumbnail_loop ::
  "'img sys \<Rightarrow> zentry list \<Rightarrow> string list \<Rightarrow> 'img list \<Rightarrow> (exn + unit) \<times> 'img list" where
  "thumbnail_loop sys es [] thumbnails = (Inr (), thumbnails)"
| "thumbnail_loop sys es (name # rest) thumbnails =
     (if is_thumbnail name
      then (case decode_member sys es name of
              Inl x \<Rightarrow> (Inl x, thumbnails)
            | Inr img \<Rightarrow> thumbnail_loop sys es rest (thumbnails @ [img]))
      else thumbnail_loop sys es rest thumbnails)"

definition extract_thumbnails_body ::
  "'img sys \<Rightarrow> ftp \<Rightarrow> string \<Rightarrow> string \<Rightarrow> state \<Rightarrow> (exn + 'img list) \<times> state" where
  "extract_thumbnails_body sys c remote_path tmp st =
     (case download c remote_path tmp st of
        (Inl x, st1) \<Rightarrow> (Inl x, st1)
      | (Inr u, st1) \<Rightarrow>
          (case open_zip sys tmp st1 of
             Inl x \<Rightarrow> (Inr [], emit (Print_zip_error x) st1)
           | Inr es \<Rightarrow>
               (case thumbnail_loop sys es (namelist es) [] of
                  (Inl x, thumbnails) \<Rightarrow> (Inr thumbnails, emit (Print_zip_error x) st1)
                | (Inr u, thumbnails) \<Rightarrow> (Inr thumbnails, st1))))"

definition extract_thumbnails ::
  "'img sys \<Rightarrow> ftp \<Rightarrow> string \<Rightarrow> state \<Rightarrow> (exn + 'img list) \<times> state" where
  "extract_thumbnails sys c remote_path st =
     with_tempfile sys (extract_thumbnails_body sys c remote_path) st"

section \<open>examine\_3mf\_structure\<close>

text \<open>The loop over \<^verbatim>\<open>zip_file.filelist\<close>.\<close>

fun examine_loop :: "zentry list \<Rightarrow> string \<Rightarrow> zentry list \<Rightarrow> state \<Rightarrow> (exn + unit) \<times> state" where
  "examine_loop es thumbnails_dir [] st = (Inr (), st)"
| "examine_loop es thumbnails_dir (info # rest) st =
     (let st1 = emit (Print_size (file_size info)) (emit (Print_file (filename info)) st)
      in if prefix ''Metadata/'' (filename info) \<and> suffix ''.png'' (filename info)
         then (let save_path = join thumbnails_dir (basename (filename info))
               in case copy_member es (filename info) save_path st1 of
                    (Inl x, st2) \<Rightarrow> (Inl x, st2)
                  | (Inr u, st2) \<Rightarrow>
                      examine_loop es thumbnails_dir rest
                        (emit Print_blank (emit (Print_extracted save_path) st2)))
         else examine_loop es thumbnails_dir rest (emit Print_blank st1))"

definition examine_body ::
  "'img sys \<Rightarrow> ftp \<Rightarrow> string \<Rightarrow> string \<Rightarrow> string \<Rightarrow> state \<Rightarrow> (exn + unit) \<times> state" where
  "examine_body sys c remote_path thumbnails_dir tmp st =
     (let st1 = emit (Print_downloading remote_path tmp) st
      in case download c remote_path tmp st1 of
           (Inl x, st2) \<Rightarrow> (Inl x, st2)
         | (Inr u, st2) \<Rightarrow>
             (let st3 = emit Print_rule (emit Print_examining st2)
              in case open_zip sys tmp st3 of
                   Inl x \<Rightarrow> (Inr (), emit (Print_examine_error x) st3)
                 | Inr es \<Rightarrow>
                     (case examine_loop es thumbnails_dir es st3 of
                        (Inl x, st4) \<Rightarrow> (Inr (), emit (Print_examine_error x) st4)
                      | (Inr u, st4) \<Rightarrow> (Inr (), st4))))"

definition examine_3mf_structure ::
  "'img sys \<Rightarrow> string \<Rightarrow> ftp \<Rightarrow> string \<Rightarrow> state \<Rightarrow> (exn + unit) \<times> state" where
  "examine_3mf_structure sys script_dir c remote_path st =
     (let thumbnails_dir = join script_dir ''thumbnails'';
          st1 = makedirs thumbnails_dir st
      in with_tempfile sys (examine_body sys c remote_path thumbnails_dir) st1)"

section \<open>The tree walker of list\_printer\_filesystem\<close>

definition indent :: "nat \<Rightarrow> glyph list" where
  \<comment> \<open>\<^verbatim>\<open>"  |   " * (level - 1) + "  |-- " if level > 0 else ""\<close>\<close>
  "indent level =
     (if level > 0
      then concat (replicate (level - 1) [Sp, Sp, Vert, Sp, Sp, Sp]) @ [Sp, Sp, Tee, Horiz, Horiz, Sp]
      else [])"

definition last_indent :: "glyph list \<Rightarrow> glyph list" where
  \<comment> \<open>\<^verbatim>\<open>indent[:-4] + "  `-- "\<close>\<close>
  "last_indent ind = take (length ind - 4) ind @ [Sp, Sp, Corner, Horiz, Horiz, Sp]"

definition rstrip_slash :: "string \<Rightarrow> string" where
  "rstrip_slash p = rev (dropWhile (\<lambda>c. c = CHR ''/'') (rev p))"

fun replace_dslash :: "string \<Rightarrow> string" where
  \<comment> \<open>\<^verbatim>\<open>.replace("//", "/")\<close>: left to right, without overlap\<close>
  "replace_dslash (a # b # rest) =
     (if a = CHR ''/'' \<and> b = CHR ''/'' then CHR ''/'' # replace_dslash rest
      else a # replace_dslash (b # rest))"
| "replace_dslash p = p"

definition child_path :: "string \<Rightarrow> string \<Rightarrow> string" where
  \<comment> \<open>\<^verbatim>\<open>f"{path.rstrip('/')}/{item.name}".replace("//", "/")\<close>\<close>
  "child_path p name = replace_dslash (rstrip_slash p @ ''/'' @ name)"

text \<open>The loop that sorts the listed items into \<^verbatim>\<open>dirs\<close> and \<^verbatim>\<open>files\<close>; the bare
  \<^verbatim>\<open>except:\<close> takes every failure of the size query.\<close>

fun classify ::
  "ftp \<Rightarrow> string \<Rightarrow> string list \<Rightarrow> string list \<Rightarrow> (string \<times> int) list
     \<Rightarrow> string list \<times> (string \<times> int) list" where
  "classify c p [] ds fs = (ds, fs)"
| "classify c p (item # items) ds fs =
     (case get_file_size c (child_path p item) of
        Inr sz \<Rightarrow> classify c p items ds (fs @ [(item, sz)])
      | Inl x \<Rightarrow> classify c p items (ds @ [item]) fs)"

text \<open>The loop over \<^verbatim>\<open>enumerate(sorted(files))\<close>; a failing date query raises out of it,
  after the lines printed so far.\<close>

fun print_files ::
  "ftp \<Rightarrow> string \<Rightarrow> nat \<Rightarrow> nat \<Rightarrow> (nat \<times> string \<times> int) list \<Rightarrow> (exn + unit) \<times> event list" where
  "print_files c p level nfiles [] = (Inr (), [])"
| "print_files c p level nfiles ((i, file_path, sz) # rest) =
     (let is_last = (int i = int nfiles - 1);
          file_indent = (if is_last then last_indent (indent level) else indent level)
      in case get_file_date c (child_path p file_path) of
           Inl x \<Rightarrow> (Inl x, [])
         | Inr date \<Rightarrow>
             (case print_files c p level nfiles rest of
                (r, lines) \<Rightarrow> (r, Tree_file file_indent file_path sz date # lines)))"

text \<open>\<^verbatim>\<open>print_directory_tree\<close> recurses as deep as the remote tree is, which the script
  does not bound; the first argument is the recursion depth allowed, and \<open>None\<close> says
  that it was used up. \<open>print_dirs\<close> is the loop over \<^verbatim>\<open>enumerate(sorted(dirs))\<close>.\<close>

fun print_directory_tree :: "nat \<Rightarrow> ftp \<Rightarrow> string \<Rightarrow> nat \<Rightarrow> event list option"
  and print_dirs ::
    "nat \<Rightarrow> ftp \<Rightarrow> string \<Rightarrow> nat \<Rightarrow> nat \<Rightarrow> bool \<Rightarrow> (nat \<times> string) list \<Rightarrow> event list option" where
  "print_directory_tree 0 c p level = None"
| "print_directory_tree (Suc n) c p level =
     (case list_files c p of
        Inl x \<Rightarrow> Some [Tree_error (indent level) p x]
      | Inr items \<Rightarrow>
          (case classify c p items [] [] of
             (ds, fs) \<Rightarrow>
               (case print_dirs n c p level (length ds) (fs = []) (enumerate 0 (sort ds)) of
                  None \<Rightarrow> None
                | Some dir_lines \<Rightarrow>
                    (case print_files c p level (length fs) (enumerate 0 (sort fs)) of
                       (Inl x, file_lines) \<Rightarrow>
                         Some (dir_lines @ file_lines @ [Tree_error (indent level) p x])
                     | (Inr u, file_lines) \<Rightarrow> Some (dir_lines @ file_lines)))))"
| "print_dirs n c p level ndirs no_files [] = Some []"
| "print_dirs n c p level ndirs no_files ((i, dir_path) # rest) =
     (let is_last = (int i = int ndirs - 1 \<and> no_files);
          dir_indent = (if is_last then last_indent (indent level) else indent level)
      in case print_directory_tree n c (child_path p dir_path) (level + 1) of
           None \<Rightarrow> None
         | Some sub \<Rightarrow>
             (case print_dirs n c p level ndirs no_files rest of
                None \<Rightarrow> None
              | Some later \<Rightarrow> Some (Tree_dir dir_indent dir_path # sub @ later)))"
section \<open>Concrete inputs\<close>

definition demo_archive :: "zentry list" where
  "demo_archive =
     [\<lparr>filename = ''Metadata/plate_1.png'', file_size = 3, zdata = Data [1, 2, 3]\<rparr>,
      \<lparr>filename = ''3D/3dmodel.model'', file_size = 2, zdata = Data [7, 7]\<rparr>,
      \<lparr>filename = ''Metadata/model_settings.config'', file_size = 1, zdata = Data [9]\<rparr>]"

definition demo_thumbs :: "zentry list" where
  "demo_thumbs =
     [\<lparr>filename = ''Metadata/thumbnail_small.png'', file_size = 1, zdata = Data [1]\<rparr>,
      \<lparr>filename = ''Metadata/Thumbnail_big.PNG'', file_size = 0, zdata = Data []\<rparr>,
      \<lparr>filename = ''Metadata/plate_1.png'', file_size = 3, zdata = Data [1, 2, 3]\<rparr>,
      \<lparr>filename = ''thumbnail_3.jpg'', file_size = 2, zdata = Data [5, 5]\<rparr>]"

definition demo_cases :: "zentry list" where
  "demo_cases =
     [\<lparr>filename = ''metadata/x.png'', file_size = 1, zdata = Data [1]\<rparr>,
      \<lparr>filename = ''Metadata/x.PNG'', file_size = 1, zdata = Data [2]\<rparr>,
      \<lparr>filename = ''Metadata/x.png'', file_size = 3, zdata = Data [1, 2, 3]\<rparr>]"

definition demo_sys :: "nat sys" where
  "demo_sys =
     \<lparr>ZipFile = (\<lambda>b. if b = [80, 75] then Inr demo_archive
                    else if b = [80, 75, 2] then Inr demo_thumbs
                    else if b = [80, 75, 3] then Inr demo_cases
                    else Inl (Exn ''File is not a zip file'')),
      Image_open = (\<lambda>b. if b = [] then Inl (Exn ''cannot identify image file'') else Inr (length b)),
      tempname = (\<lambda>_. ''/tmp/tmpk3.3mf'')\<rparr>"

definition demo_ftp :: ftp where
  "demo_ftp =
     \<lparr>download_file = (\<lambda>p. if p = ''/cache/cube.3mf'' then Inr [80, 75]
                          else if p = ''/cache/bad.3mf'' then Inr [0]
                          else if p = ''/cache/thumbs.3mf'' then Inr [80, 75, 2]
                          else if p = ''/cache/cases.3mf'' then Inr [80, 75, 3]
                          else Inl (Exn ''550'')),
      list_files = (\<lambda>p. Inl (Exn ''550'')),
      get_file_size = (\<lambda>p. Inl (Exn ''550'')),
      get_file_date = (\<lambda>p. Inl (Exn ''550''))\<rparr>"

definition demo_order :: "string list" where
  "demo_order = [''Metadata/top_1.png'', ''Metadata/model_settings.config'', ''Metadata/plate_1.png'']"

definition st0 :: state where
  "st0 = \<lparr>dirs = {}, files = Map.empty, out = []\<rparr>"


definition demo_bad_file :: file_info where
  "demo_bad_file = \<lparr>file_name = ''bad.3mf'', path = ''/cache/bad.3mf''\<rparr>"

definition demo_printer_no_listing :: printer where
  "demo_printer_no_listing =
     \<lparr>get_ftps_client = (\<lambda>host access_code. Inr demo_ftp),
      sd_list_files = (\<lambda>c folder ext. Inl (Exn ''listing failed''))\<rparr>"

definition demo_cube_file :: file_info where
  "demo_cube_file = \<lparr>file_name = ''cube.3mf'', path = ''/cache/cube.3mf''\<rparr>"

definition demo_printer :: printer where
  "demo_printer =
     \<lparr>get_ftps_client = (\<lambda>host access_code. Inr demo_ftp),
      sd_list_files = (\<lambda>c folder ext. Inr [demo_bad_file, demo_cube_file])\<rparr>"

text \<open>The remote tree of the spec's example: the root holds the empty directory \<^verbatim>\<open>dirA\<close>
  and the file \<^verbatim>\<open>fileA.3mf\<close> of 100 bytes. The size query fails on a directory.\<close>

definition demo_tree :: ftp where
  "demo_tree =
     \<lparr>download_file = (\<lambda>p. Inl (Exn ''550'')),
      list_files = (\<lambda>p. if p = ''/'' then Inr [''fileA.3mf'', ''dirA'']
                       else if p = ''/dirA'' then Inr [] else Inl (Exn ''550'')),
      get_file_size = (\<lambda>p. if p = ''/fileA.3mf'' then Inr 100 else Inl (Exn ''550 not a plain file'')),
      get_file_date = (\<lambda>p. if p = ''/fileA.3mf'' then Inr ''2024-05-01 10:00:00+00:00''
                          else Inl (Exn ''550''))\<rparr>"

text \<open>The same tree behind a server that words the failure of the size query differently.\<close>

definition demo_tree_other_error :: ftp where
  "demo_tree_other_error =
     demo_tree\<lparr>get_file_size :=
       (\<lambda>p. if p = ''/fileA.3mf'' then Inr 100 else Inl (Exn ''timed out''))\<rparr>"

section \<open>Shared lemmas\<close>












lemma with_tempfile_split:
  "with_tempfile sys body st =
     (fst (body (tempname sys (files st)) (write_file (tempname sys (files st)) [] st)),
      unlink (tempname sys (files st))
        (snd (body (tempname sys (files st)) (write_file (tempname sys (files st)) [] st))))"
  by (simp add: with_tempfile_def Let_def split: prod.splits)

lemma copy_member_frame:
  "dirs (snd (copy_member es n p st)) = dirs st" "out (snd (copy_member es n p st)) = out st"
  by (auto simp: copy_member_def write_file_def split: option.splits zdata.splits)

lemma extract_loop_frame:
  "dirs (snd (extract_loop es od fs st)) = dirs st \<and> out (snd (extract_loop es od fs st)) = out st"
proof (induction fs arbitrary: st)
  case Nil
  then show ?case by simp
next
  case (Cons f fs)
  show ?case
  proof (cases "f \<in> set (namelist es)")
    case False
    then show ?thesis using Cons.IH by simp
  next
    case True
    obtain r st1 where c: "copy_member es f (join od (basename f)) st = (r, st1)"
      by (cases "copy_member es f (join od (basename f)) st")
    have fr: "dirs st1 = dirs st" "out st1 = out st"
      using copy_member_frame[of es f "join od (basename f)" st] c by simp_all
    show ?thesis using True c fr Cons.IH[of st1] by (cases r) simp_all
  qed
qed





lemma extract_required_files_bad_zip:
  assumes dl: "download_file c rp = Inr b" and bad: "ZipFile sys b = Inl x"
    and fresh: "files st (tempname sys (files st)) = None"
  shows "extract_required_files sys order sd c rp st =
      (Inl x, st\<lparr>dirs := insert (output_dir_of sd rp) (dirs st),
                 out := out st @ [Log_downloaded INFO rp (length b)]\<rparr>)"
  using dl bad fresh
  by (simp add: extract_required_files_def Let_def with_tempfile_split extract_required_body_def
        download_def open_zip_def emit_def write_file_def makedirs_def unlink_def getsize_def fun_upd_idem)

lemma extract_thumbnails_bad_zip:
  assumes dl: "download_file c rp = Inr b" and bad: "ZipFile sys b = Inl x"
    and fresh: "files st (tempname sys (files st)) = None"
  shows "extract_thumbnails sys c rp st = (Inr [], st\<lparr>out := out st @ [Print_zip_error x]\<rparr>)"
  using dl bad fresh
  by (simp add: extract_thumbnails_def Let_def with_tempfile_split extract_thumbnails_body_def
        download_def open_zip_def emit_def write_file_def unlink_def fun_upd_idem)

lemma examine_bad_zip:
  assumes dl: "download_file c rp = Inr b" and bad: "ZipFile sys b = Inl x"
    and fresh: "files st (tempname sys (files st)) = None"
  shows "examine_3mf_structure sys sd c rp st =
      (Inr (), st\<lparr>dirs := insert (join sd ''thumbnails'') (dirs st),
           out := out st @ [Print_downloading rp (tempname sys (files st)), Print_examining, Print_rule,
                            Print_examine_error x]\<rparr>)"
  using dl bad fresh
  by (simp add: examine_3mf_structure_def Let_def with_tempfile_split examine_body_def
        download_def open_zip_def emit_def write_file_def makedirs_def unlink_def fun_upd_idem)

lemma process_files_bad_zip:
  assumes dl: "download_file c (path f) = Inr b" and bad: "ZipFile sys b = Inl x"
    and fresh: "files st (tempname sys (files st)) = None"
  shows "process_files sys order sd c (f # rest) st =
     process_files sys order sd c rest
       (st\<lparr>dirs := insert (output_dir_of sd (path f)) (dirs st),
           out := out st @ [Log_processing INFO (file_name f), Log_downloaded INFO (path f) (length b),
                            Log_failed ERROR (file_name f) x]\<rparr>)"
proof -
  let ?st1 = "emit (Log_processing INFO (file_name f)) st"
  have "files ?st1 (tempname sys (files ?st1)) = None" using fresh by (simp add: emit_def)
  from extract_required_files_bad_zip[OF dl bad this, of order sd]
  show ?thesis by (simp add: Let_def emit_def)
qed


lemma process_files_append:
  "process_files sys order sd c (fa @ fb) st = process_files sys order sd c fb (process_files sys order sd c fa st)"
  by (induction fa arbitrary: st) (auto simp: Let_def split: prod.splits sum.splits)

lemma extract_required_body_out:
  "prefix (out st) (out (snd (extract_required_body sys order c rp od tmp st)))"
proof -
  have "out (snd (extract_loop es od order s)) = out s" for es s
    using extract_loop_frame by blast
  then have "\<And>es s r s'. extract_loop es od order s = (r, s') \<Longrightarrow> out s' = out s"
    by (metis snd_conv)
  then show ?thesis
    by (auto simp: extract_required_body_def download_def Let_def emit_def write_file_def
        split: sum.splits prod.splits)
qed

lemma extract_required_files_out:
  "prefix (out st) (out (snd (extract_required_files sys order sd c rp st)))"
  using extract_required_body_out[of "write_file (tempname sys (files st)) [] (makedirs (output_dir_of sd rp) st)"]
  by (simp add: extract_required_files_def Let_def with_tempfile_split unlink_def makedirs_def write_file_def)

lemma process_files_out:
  "prefix (out st) (out (process_files sys order sd c fls st))"
proof (induction fls arbitrary: st)
  case Nil
  then show ?case by simp
next
  case (Cons f fls)
  let ?s1 = "emit (Log_processing INFO (file_name f)) st"
  obtain r s2 where run: "extract_required_files sys order sd c (path f) ?s1 = (r, s2)"
    by (cases "extract_required_files sys order sd c (path f) ?s1")
  have p1: "prefix (out st) (out ?s1)" by (simp add: emit_def)
  have p2: "prefix (out ?s1) (out s2)"
    using extract_required_files_out[of ?s1 sys order sd c "path f"] run by simp
  show ?case
  proof (cases r)
    case (Inl x)
    have "prefix (out s2) (out (emit (Log_failed ERROR (file_name f) x) s2))" by (simp add: emit_def)
    with p1 p2 Cons.IH[of "emit (Log_failed ERROR (file_name f) x) s2"] run Inl
    show ?thesis by (auto simp: Let_def intro: prefix_order.trans)
  next
    case (Inr u)
    with p1 p2 Cons.IH[of s2] run show ?thesis by (auto simp: Let_def intro: prefix_order.trans)
  qed
qed

lemma process_files_mentions:
  "f \<in> set fls \<Longrightarrow> Log_processing INFO (file_name f) \<in> set (out (process_files sys order sd c fls st))"
proof -
  assume "f \<in> set fls"
  then obtain fa fb where fls: "fls = fa @ f # fb" by (auto simp: in_set_conv_decomp)
  let ?s = "process_files sys order sd c fa st"
  let ?s1 = "emit (Log_processing INFO (file_name f)) ?s"
  obtain r s2 where run: "extract_required_files sys order sd c (path f) ?s1 = (r, s2)"
    by (cases "extract_required_files sys order sd c (path f) ?s1")
  have in1: "Log_processing INFO (file_name f) \<in> set (out ?s1)" by (simp add: emit_def)
  have p2: "prefix (out ?s1) (out s2)"
    using extract_required_files_out[of ?s1 sys order sd c "path f"] run by simp
  define s3 where "s3 = (case r of Inl x \<Rightarrow> emit (Log_failed ERROR (file_name f) x) s2 | Inr u \<Rightarrow> s2)"
  have p3: "prefix (out s2) (out s3)" by (simp add: s3_def emit_def split: sum.splits)
  have fin: "process_files sys order sd c fls st = process_files sys order sd c fb s3"
    using run by (simp add: fls process_files_append Let_def s3_def split: sum.splits)
  have "prefix (out ?s1) (out (process_files sys order sd c fb s3))"
    using p2 p3 process_files_out[of s3 sys order sd c fb] by (auto intro: prefix_order.trans)
  then show ?thesis using in1 fin by (auto dest: set_mono_prefix)
qed


lemmas run_defs = extract_required_files_def Let_def with_tempfile_split extract_required_body_def
        download_def open_zip_def emit_def write_file_def makedirs_def unlink_def getsize_def
        total_size_def getinfo_def copy_member_def join_def suffix_to_prefix namelist_def
        output_dir_of_def basename_def splitext_root_def rfind_def

lemmas demo_defs = demo_sys_def demo_ftp_def demo_order_def demo_archive_def st0_def
  demo_bad_file_def demo_cube_file_def demo_printer_def demo_printer_no_listing_def






















lemma classify_spec:
  "classify c p items ds fs =
     (ds @ filter (\<lambda>i. isl (get_file_size c (child_path p i))) items,
      fs @ map (\<lambda>i. (i, projr (get_file_size c (child_path p i))))
             (filter (\<lambda>i. \<not> isl (get_file_size c (child_path p i))) items))"
  by (induction items arbitrary: ds fs) (auto split: sum.splits)

lemma classify_cong:
  assumes "\<forall>q. isl (get_file_size c' q) = isl (get_file_size c q) \<and>
             (\<not> isl (get_file_size c q) \<longrightarrow> get_file_size c' q = get_file_size c q)"
  shows "classify c' p items ds fs = classify c p items ds fs"
proof -
  have "filter (\<lambda>i. isl (get_file_size c' (child_path p i))) items =
        filter (\<lambda>i. isl (get_file_size c (child_path p i))) items"
    using assms by simp
  moreover have "map (\<lambda>i. (i, projr (get_file_size c' (child_path p i))))
             (filter (\<lambda>i. \<not> isl (get_file_size c' (child_path p i))) items) =
     map (\<lambda>i. (i, projr (get_file_size c (child_path p i))))
             (filter (\<lambda>i. \<not> isl (get_file_size c (child_path p i))) items)"
    using assms by (auto intro!: map_cong)
  ultimately show ?thesis by (simp add: classify_spec)
qed

lemma print_files_cong:
  "get_file_date c' = get_file_date c \<Longrightarrow> print_files c' p level nf xs = print_files c p level nf xs"
  by (induction xs) (auto split: sum.splits prod.splits)

lemma print_dirs_cong:
  assumes "\<And>q l. print_directory_tree n c' q l = print_directory_tree n c q l"
  shows "print_dirs n c' p level nd nf xs = print_dirs n c p level nd nf xs"
  by (induction xs) (auto simp: assms Let_def split: option.splits)

lemma tree_cong:
  assumes l: "list_files c' = list_files c" and d: "get_file_date c' = get_file_date c"
    and s: "\<forall>q. isl (get_file_size c' q) = isl (get_file_size c q) \<and>
             (\<not> isl (get_file_size c q) \<longrightarrow> get_file_size c' q = get_file_size c q)"
  shows "print_directory_tree n c' p level = print_directory_tree n c p level"
proof (induction n arbitrary: p level)
  case 0
  then show ?case by simp
next
  case (Suc n)
  have pd: "print_dirs n c' p level nd nf xs = print_dirs n c p level nd nf xs" for nd nf xs
    by (rule print_dirs_cong) (rule Suc.IH)
  have pf: "print_files c' p level nf xs = print_files c p level nf xs" for nf xs
    by (rule print_files_cong[OF d])
  show ?case
    by (simp add: l classify_cong[OF s] pd pf split: sum.splits prod.splits option.splits)
qed







lemma demo_tree_run:
  "print_directory_tree (Suc (Suc 0)) demo_tree ''/'' 0 =
     Some [Tree_dir [] ''dirA'',
           Tree_file [Sp, Sp, Corner, Horiz, Horiz, Sp] ''fileA.3mf'' 100 ''2024-05-01 10:00:00+00:00'']"
  by (simp add: demo_tree_def child_path_def rstrip_slash_def indent_def last_indent_def
      enumerate_eq_zip)


section \<open>The claims\<close>



text \<open>
  \<^bold>\<open>C2\<close>, as stated, fails for \<^verbatim>\<open>extract_required_files\<close>: it has no handler around
  \<^verbatim>\<open>ZipFile(...)\<close>, so on a downloaded file that is not an archive it raises to its caller.
\<close>

theorem extract_required_files_raises_on_bad_zip:
  "download_file demo_ftp ''/cache/bad.3mf'' = Inr [0] \<and>
   ZipFile demo_sys [0] = Inl (Exn ''File is not a zip file'') \<and>
   extract_required_files demo_sys demo_order ''/opt/script'' demo_ftp ''/cache/bad.3mf'' st0 =
     (Inl (Exn ''File is not a zip file''),
      \<lparr>dirs = {''/opt/script/bad''}, files = Map.empty,
       out = [Log_downloaded INFO ''/cache/bad.3mf'' 1]\<rparr>)"
proof -
  have dl: "download_file demo_ftp ''/cache/bad.3mf'' = Inr [0]" by (simp add: demo_ftp_def)
  have bad: "ZipFile demo_sys [0] = Inl (Exn ''File is not a zip file'')" by (simp add: demo_sys_def)
  have fresh: "files st0 (tempname demo_sys (files st0)) = None" by (simp add: st0_def)
  have od: "output_dir_of ''/opt/script'' ''/cache/bad.3mf'' = ''/opt/script/bad''"
    by (simp add: output_dir_of_def basename_def splitext_root_def rfind_def join_def Let_def
        suffix_to_prefix)
  show ?thesis
    using dl bad extract_required_files_bad_zip[OF dl bad fresh, of demo_order "''/opt/script''"]
    by (simp add: od st0_def)
qed

text \<open>
  \<^bold>\<open>C2\<close>, amended. Let the download succeed and the downloaded file not open as an archive.
  \<^verbatim>\<open>extract_thumbnails\<close> and \<^verbatim>\<open>examine_3mf_structure\<close> catch the error, print it and
  return normally (the former an empty list), leaving the files as they were.
  \<^verbatim>\<open>extract_required_files\<close> raises the error to its caller; it has created the output
  directory, written no file, and the temporary file is gone. Its caller, the loop of
  \<^verbatim>\<open>list_3mf_files\<close>, catches the error, logs it with the name of the file and goes on
  with the remaining files.
\<close>

theorem bad_zip_handling:
  assumes dl: "download_file c (path f) = Inr b" and bad: "ZipFile sys b = Inl x"
    and fresh: "files st (tempname sys (files st)) = None"
  shows "extract_thumbnails sys c (path f) st = (Inr [], st\<lparr>out := out st @ [Print_zip_error x]\<rparr>) \<and>
    examine_3mf_structure sys sd c (path f) st =
      (Inr (), st\<lparr>dirs := insert (join sd ''thumbnails'') (dirs st),
           out := out st @ [Print_downloading (path f) (tempname sys (files st)), Print_examining,
                            Print_rule, Print_examine_error x]\<rparr>) \<and>
    extract_required_files sys order sd c (path f) st =
      (Inl x, st\<lparr>dirs := insert (output_dir_of sd (path f)) (dirs st),
                 out := out st @ [Log_downloaded INFO (path f) (length b)]\<rparr>) \<and>
    process_files sys order sd c (f # rest) st =
      process_files sys order sd c rest
        (st\<lparr>dirs := insert (output_dir_of sd (path f)) (dirs st),
            out := out st @ [Log_processing INFO (file_name f),
                             Log_downloaded INFO (path f) (length b),
                             Log_failed ERROR (file_name f) x]\<rparr>)"
  using extract_thumbnails_bad_zip[OF dl bad fresh] examine_bad_zip[OF dl bad fresh]
    extract_required_files_bad_zip[OF dl bad fresh] process_files_bad_zip[OF dl bad fresh]
  by simp

theorem bad_zip_handling_witness:
  "download_file demo_ftp (path demo_bad_file) = Inr [0] \<and>
   ZipFile demo_sys [0] = Inl (Exn ''File is not a zip file'') \<and>
   files st0 (tempname demo_sys (files st0)) = None \<and>
   extract_thumbnails demo_sys demo_ftp ''/cache/bad.3mf'' st0 =
     (Inr [], st0\<lparr>out := [Print_zip_error (Exn ''File is not a zip file'')]\<rparr>) \<and>
   fst (extract_required_files demo_sys demo_order ''/opt/script'' demo_ftp ''/cache/bad.3mf'' st0) =
     Inl (Exn ''File is not a zip file'') \<and>
   out (process_files demo_sys demo_order ''/opt/script'' demo_ftp [demo_bad_file] st0) =
     [Log_processing INFO ''bad.3mf'', Log_downloaded INFO ''/cache/bad.3mf'' 1,
      Log_failed ERROR ''bad.3mf'' (Exn ''File is not a zip file'')]"
proof -
  have dl: "download_file demo_ftp (path demo_bad_file) = Inr [0]"
    by (simp add: demo_ftp_def demo_bad_file_def)
  have bad: "ZipFile demo_sys [0] = Inl (Exn ''File is not a zip file'')" by (simp add: demo_sys_def)
  have fresh: "files st0 (tempname demo_sys (files st0)) = None" by (simp add: st0_def)
  have p: "path demo_bad_file = ''/cache/bad.3mf''" "file_name demo_bad_file = ''bad.3mf''"
    by (simp_all add: demo_bad_file_def)
  show ?thesis
    using dl bad fresh
      bad_zip_handling[OF dl bad fresh, of "''/opt/script''" demo_order "[]"]
    by (simp add: p st0_def)
qed

text \<open>
  \<^bold>\<open>C3.\<close> After \<^verbatim>\<open>extract_required_files\<close>, \<^verbatim>\<open>examine_3mf_structure\<close> and
  \<^verbatim>\<open>extract_thumbnails\<close>, whatever the download, the archive and its members did and
  whether the routine returned or raised, no file exists under the name of the temporary
  file the routine created.
\<close>

theorem temporary_file_removed:
  "files (snd (extract_required_files sys order sd c rp st)) (tempname sys (files st)) = None \<and>
   files (snd (examine_3mf_structure sys sd c rp st)) (tempname sys (files st)) = None \<and>
   files (snd (extract_thumbnails sys c rp st)) (tempname sys (files st)) = None"
  by (simp add: extract_required_files_def examine_3mf_structure_def extract_thumbnails_def Let_def
      with_tempfile_split unlink_def makedirs_def)





text \<open>
  \<^bold>\<open>C5\<close>, as stated, fails in its last part: the outer \<^verbatim>\<open>try\<close> of \<^verbatim>\<open>list_3mf_files\<close> also
  holds the call that lists the remote files, so with the connection established a failing
  listing ends the whole operation, logged as a connection error.
\<close>

theorem listing_failure_aborts:
  "get_ftps_client demo_printer_no_listing ''192.168.178.70'' ''33055062'' = Inr demo_ftp \<and>
   sd_list_files demo_printer_no_listing demo_ftp ''/'' ''.3mf'' = Inl (Exn ''listing failed'') \<and>
   list_3mf_files demo_sys demo_order ''/opt/script'' demo_printer_no_listing
       ''192.168.178.70'' ''33055062'' st0 =
     \<lparr>dirs = {}, files = Map.empty,
      out = [Log_connection_error ERROR (Exn ''listing failed''), Log_total_completed INFO]\<rparr>"
  by (simp add: list_3mf_files_def emit_def demo_printer_no_listing_def st0_def)


text \<open>
  \<^bold>\<open>C5\<close>, amended. A failure establishing the connection, or listing the remote files,
  ends the operation with one error record. Otherwise, for every file \<open>f\<close> of the listing
  \<open>fa @ f # fb\<close>, whatever happened to the files \<open>fa\<close> before it: \<open>f\<close> is announced and
  \<^verbatim>\<open>extract_required_files\<close> is called on its path; when that call raises (download,
  archive open or member read), the error is logged with the name of \<open>f\<close>; and in either
  case the files \<open>fb\<close> after it are processed from the state reached. Every file of the
  listing is announced in the final log.
\<close>

theorem list_3mf_files_failure_handling:
  "(\<forall>x. get_ftps_client pr host code = Inl x \<longrightarrow>
      list_3mf_files sys order sd pr host code st =
        st\<lparr>out := out st @ [Log_connection_error ERROR x, Log_total_completed INFO]\<rparr>) \<and>
   (\<forall>c x. get_ftps_client pr host code = Inr c \<and> sd_list_files pr c ''/'' ''.3mf'' = Inl x \<longrightarrow>
      list_3mf_files sys order sd pr host code st =
        st\<lparr>out := out st @ [Log_connection_error ERROR x, Log_total_completed INFO]\<rparr>) \<and>
   (\<forall>c fa f fb r s2.
      get_ftps_client pr host code = Inr c \<and> sd_list_files pr c ''/'' ''.3mf'' = Inr (fa @ f # fb) \<and>
      extract_required_files sys order sd c (path f)
        (emit (Log_processing INFO (file_name f))
           (process_files sys order sd c fa (emit (Log_found INFO (length (fa @ f # fb))) st))) = (r, s2) \<longrightarrow>
      list_3mf_files sys order sd pr host code st =
        emit (Log_total_completed INFO)
          (process_files sys order sd c fb
             (case r of Inl x \<Rightarrow> emit (Log_failed ERROR (file_name f) x) s2 | Inr u \<Rightarrow> s2))) \<and>
   (\<forall>c fls. get_ftps_client pr host code = Inr c \<and> sd_list_files pr c ''/'' ''.3mf'' = Inr fls \<longrightarrow>
      (\<forall>f\<in>set fls. Log_processing INFO (file_name f) \<in> set (out (list_3mf_files sys order sd pr host code st))))"
proof -
  have a: "list_3mf_files sys order sd pr host code st =
        st\<lparr>out := out st @ [Log_connection_error ERROR x, Log_total_completed INFO]\<rparr>"
    if "get_ftps_client pr host code = Inl x" for x
    using that by (simp add: list_3mf_files_def emit_def)
  have b: "list_3mf_files sys order sd pr host code st =
        st\<lparr>out := out st @ [Log_connection_error ERROR x, Log_total_completed INFO]\<rparr>"
    if "get_ftps_client pr host code = Inr c" "sd_list_files pr c ''/'' ''.3mf'' = Inl x" for c x
    using that by (simp add: list_3mf_files_def emit_def)
  have c: "list_3mf_files sys order sd pr host code st =
        emit (Log_total_completed INFO)
          (process_files sys order sd c fb
             (case r of Inl x \<Rightarrow> emit (Log_failed ERROR (file_name f) x) s2 | Inr u \<Rightarrow> s2))"
    if "get_ftps_client pr host code = Inr c" "sd_list_files pr c ''/'' ''.3mf'' = Inr (fa @ f # fb)"
      "extract_required_files sys order sd c (path f)
        (emit (Log_processing INFO (file_name f))
           (process_files sys order sd c fa (emit (Log_found INFO (length (fa @ f # fb))) st))) = (r, s2)"
    for c fa f fb r s2
    using that by (simp add: list_3mf_files_def process_files_append Let_def split: sum.splits)
  have d: "Log_processing INFO (file_name f) \<in> set (out (list_3mf_files sys order sd pr host code st))"
    if "get_ftps_client pr host code = Inr c" "sd_list_files pr c ''/'' ''.3mf'' = Inr fls" "f \<in> set fls"
    for c fls f
    using that process_files_mentions[OF that(3), of sys order sd c "emit (Log_found INFO (length fls)) st"]
    by (simp add: list_3mf_files_def emit_def Let_def)
  show ?thesis using a b c d by blast
qed


theorem list_3mf_files_failure_handling_witness:
  "get_ftps_client demo_printer ''192.168.178.70'' ''33055062'' = Inr demo_ftp \<and>
   sd_list_files demo_printer demo_ftp ''/'' ''.3mf'' = Inr [demo_bad_file, demo_cube_file] \<and>
   out (list_3mf_files demo_sys demo_order ''/opt/script'' demo_printer ''192.168.178.70'' ''33055062'' st0) =
     [Log_found INFO 2,
      Log_processing INFO ''bad.3mf'', Log_downloaded INFO ''/cache/bad.3mf'' 1,
      Log_failed ERROR ''bad.3mf'' (Exn ''File is not a zip file''),
      Log_processing INFO ''cube.3mf'', Log_downloaded INFO ''/cache/cube.3mf'' 2,
      Log_extracting INFO 3 4, Log_extraction_completed INFO, Log_total_processing INFO,
      Log_total_completed INFO] \<and>
   files (list_3mf_files demo_sys demo_order ''/opt/script'' demo_printer ''192.168.178.70'' ''33055062'' st0)
     ''/opt/script/cube/plate_1.png'' = Some [1, 2, 3]"
proof -
  have h1: "get_ftps_client demo_printer ''192.168.178.70'' ''33055062'' = Inr demo_ftp"
    by (simp add: demo_printer_def)
  have h2: "sd_list_files demo_printer demo_ftp ''/'' ''.3mf'' = Inr ([] @ demo_bad_file # [demo_cube_file])"
    by (simp add: demo_printer_def)
  let ?s = "emit (Log_processing INFO (file_name demo_bad_file))
           (process_files demo_sys demo_order ''/opt/script'' demo_ftp []
              (emit (Log_found INFO (length ([] @ demo_bad_file # [demo_cube_file]))) st0))"
  have dl: "download_file demo_ftp (path demo_bad_file) = Inr [0]"
    by (simp add: demo_ftp_def demo_bad_file_def)
  have bad: "ZipFile demo_sys [0] = Inl (Exn ''File is not a zip file'')" by (simp add: demo_sys_def)
  have fresh: "files ?s (tempname demo_sys (files ?s)) = None" by (simp add: st0_def emit_def)
  note h3 = extract_required_files_bad_zip[OF dl bad fresh, of demo_order "''/opt/script''"]
  have run: "extract_required_files demo_sys demo_order ''/opt/script'' demo_ftp (path demo_bad_file)
        (emit (Log_processing INFO (file_name demo_bad_file))
           (process_files demo_sys demo_order ''/opt/script'' demo_ftp []
              (emit (Log_found INFO (length ([] @ demo_bad_file # [demo_cube_file]))) st0))) =
      (Inl (Exn ''File is not a zip file''),
       ?s\<lparr>dirs := insert (output_dir_of ''/opt/script'' (path demo_bad_file)) (dirs ?s),
          out := out ?s @ [Log_downloaded INFO (path demo_bad_file) (length [0::8 word])]\<rparr>)"
    using h3 .
  have c5: "\<forall>c fa f fb r s2.
      get_ftps_client demo_printer ''192.168.178.70'' ''33055062'' = Inr c \<and>
      sd_list_files demo_printer c ''/'' ''.3mf'' = Inr (fa @ f # fb) \<and>
      extract_required_files demo_sys demo_order ''/opt/script'' c (path f)
        (emit (Log_processing INFO (file_name f))
           (process_files demo_sys demo_order ''/opt/script'' c fa
              (emit (Log_found INFO (length (fa @ f # fb))) st0))) = (r, s2) \<longrightarrow>
      list_3mf_files demo_sys demo_order ''/opt/script'' demo_printer ''192.168.178.70'' ''33055062'' st0 =
        emit (Log_total_completed INFO)
          (process_files demo_sys demo_order ''/opt/script'' c fb
             (case r of Inl x \<Rightarrow> emit (Log_failed ERROR (file_name f) x) s2 | Inr u \<Rightarrow> s2))"
    using list_3mf_files_failure_handling[of demo_printer "''192.168.178.70''" "''33055062''" demo_sys demo_order "''/opt/script''" st0]
    by blast
  have eq: "list_3mf_files demo_sys demo_order ''/opt/script'' demo_printer ''192.168.178.70'' ''33055062'' st0 =
      emit (Log_total_completed INFO)
        (process_files demo_sys demo_order ''/opt/script'' demo_ftp [demo_cube_file]
          (emit (Log_failed ERROR (file_name demo_bad_file) (Exn ''File is not a zip file''))
            (?s\<lparr>dirs := insert (output_dir_of ''/opt/script'' (path demo_bad_file)) (dirs ?s),
                out := out ?s @ [Log_downloaded INFO (path demo_bad_file) (length [0::8 word])]\<rparr>)))"
    using c5[rule_format, OF conjI[OF h1 conjI[OF h2 run]]] by simp
  have o: "out (list_3mf_files demo_sys demo_order ''/opt/script'' demo_printer ''192.168.178.70'' ''33055062'' st0) =
     [Log_found INFO 2,
      Log_processing INFO ''bad.3mf'', Log_downloaded INFO ''/cache/bad.3mf'' 1,
      Log_failed ERROR ''bad.3mf'' (Exn ''File is not a zip file''),
      Log_processing INFO ''cube.3mf'', Log_downloaded INFO ''/cache/cube.3mf'' 2,
      Log_extracting INFO 3 4, Log_extraction_completed INFO, Log_total_processing INFO,
      Log_total_completed INFO]"
    unfolding eq by (simp add: run_defs demo_defs)
  have f: "files (list_3mf_files demo_sys demo_order ''/opt/script'' demo_printer ''192.168.178.70'' ''33055062'' st0)
     ''/opt/script/cube/plate_1.png'' = Some [1, 2, 3]"
    unfolding eq by (simp add: run_defs demo_defs)
  show ?thesis
    using h1 h2 o f by simp
qed

text \<open>
  \<^bold>\<open>C6.\<close> The children on which the size query fails are the directories, those on which
  it succeeds are the files, each recorded with the size returned, both in the order of
  the listing. The failure itself goes nowhere: two connections that differ only in the
  exception the size query raises make the walker print the same lines.
\<close>

theorem size_query_classifies:
  "classify c p items [] [] =
     (filter (\<lambda>i. isl (get_file_size c (child_path p i))) items,
      map (\<lambda>i. (i, projr (get_file_size c (child_path p i))))
        (filter (\<lambda>i. \<not> isl (get_file_size c (child_path p i))) items)) \<and>
   (list_files c' = list_files c \<and> get_file_date c' = get_file_date c \<and>
    (\<forall>q. isl (get_file_size c' q) = isl (get_file_size c q) \<and>
         (\<not> isl (get_file_size c q) \<longrightarrow> get_file_size c' q = get_file_size c q)) \<longrightarrow>
    print_directory_tree n c' p level = print_directory_tree n c p level)"
  using tree_cong[of c' c n p level] by (simp add: classify_spec)


theorem size_query_classifies_witness:
  "list_files demo_tree_other_error = list_files demo_tree \<and>
   get_file_date demo_tree_other_error = get_file_date demo_tree \<and>
   get_file_size demo_tree ''/dirA'' = Inl (Exn ''550 not a plain file'') \<and>
   get_file_size demo_tree_other_error ''/dirA'' = Inl (Exn ''timed out'') \<and>
   classify demo_tree ''/'' [''fileA.3mf'', ''dirA''] [] [] = ([''dirA''], [(''fileA.3mf'', 100)]) \<and>
   print_directory_tree (Suc (Suc 0)) demo_tree_other_error ''/'' 0 =
     Some [Tree_dir [] ''dirA'',
           Tree_file [Sp, Sp, Corner, Horiz, Horiz, Sp] ''fileA.3mf'' 100 ''2024-05-01 10:00:00+00:00'']"
proof -
  have h1: "list_files demo_tree_other_error = list_files demo_tree"
    by (simp add: demo_tree_other_error_def)
  have h2: "get_file_date demo_tree_other_error = get_file_date demo_tree"
    by (simp add: demo_tree_other_error_def)
  have h3: "\<forall>q. isl (get_file_size demo_tree_other_error q) = isl (get_file_size demo_tree q) \<and>
         (\<not> isl (get_file_size demo_tree q) \<longrightarrow>
            get_file_size demo_tree_other_error q = get_file_size demo_tree q)"
    by (simp add: demo_tree_other_error_def demo_tree_def)
  have s1: "get_file_size demo_tree ''/dirA'' = Inl (Exn ''550 not a plain file'')"
    by (simp add: demo_tree_def)
  have s2: "get_file_size demo_tree_other_error ''/dirA'' = Inl (Exn ''timed out'')"
    by (simp add: demo_tree_other_error_def)
  note c6 = size_query_classifies[of demo_tree "''/''" "[''fileA.3mf'', ''dirA'']" demo_tree_other_error "Suc (Suc 0)" 0]
  have eq: "print_directory_tree (Suc (Suc 0)) demo_tree_other_error ''/'' 0 =
      print_directory_tree (Suc (Suc 0)) demo_tree ''/'' 0"
    using c6[THEN conjunct2, rule_format, OF conjI[OF h1 conjI[OF h2 h3]]] .
  have cl: "classify demo_tree ''/'' [''fileA.3mf'', ''dirA''] [] [] = ([''dirA''], [(''fileA.3mf'', 100)])"
    using c6[THEN conjunct1] by (simp add: demo_tree_def child_path_def rstrip_slash_def)
  show ?thesis unfolding eq demo_tree_run using h1 h2 s1 s2 cl by (intro conjI) simp_all
qed







text \<open>
  \<^bold>\<open>C8.\<close> \<^verbatim>\<open>main\<close>, read with its two constants as arguments: when the address is
  \<^verbatim>\<open>192.168.1.100\<close> or the access code is \<^verbatim>\<open>12345678\<close>, it logs one error and does nothing
  else (the result mentions neither the printer nor the filesystem); otherwise it logs the
  address, connects with these two values and lists the \<^verbatim>\<open>.3mf\<close> files under \<^verbatim>\<open>/\<close>. The
  constants the source has are not the placeholders, so \<^verbatim>\<open>main\<close> itself proceeds.
\<close>

theorem main_placeholder_guard:
  "main_with ip code sys order sd pr st =
     (if ip = ''192.168.1.100'' \<or> code = ''12345678''
      then st\<lparr>out := out st @ [Log_configure ERROR]\<rparr>
      else (case get_ftps_client pr ip code of
              Inl x \<Rightarrow> st\<lparr>out := out st @ [Log_connecting INFO ip, Log_connection_error ERROR x,
                                            Log_total_completed INFO]\<rparr>
            | Inr c \<Rightarrow>
                (case sd_list_files pr c ''/'' ''.3mf'' of
                   Inl x \<Rightarrow> st\<lparr>out := out st @ [Log_connecting INFO ip, Log_connection_error ERROR x,
                                                 Log_total_completed INFO]\<rparr>
                 | Inr fls \<Rightarrow>
                     emit (Log_total_completed INFO)
                       (process_files sys order sd c fls
                          (st\<lparr>out := out st @ [Log_connecting INFO ip, Log_found INFO (length fls)]\<rparr>))))) \<and>
   main sys order sd pr st =
     list_3mf_files sys order sd pr ''192.168.178.70'' ''33055062''
       (st\<lparr>out := out st @ [Log_connecting INFO ''192.168.178.70'']\<rparr>)"
  by (simp add: main_def main_with_def list_3mf_files_def emit_def Let_def split: sum.splits)







end
